theory Spec2Isabelle
  imports Main "HOL-Library.Word"
begin

section \<open>EscapeVelocityGameFHE: the contract's data\<close>

text \<open>
  The Solidity contract \<^verbatim>\<open>EscapeVelocityGameFHE\<close> keeps encrypted player wealth as
  opaque handles and validates asynchronous decryption callbacks against a digest of the
  handles that were sent for decryption. The value types of the source are machine
  words: \<^verbatim>\<open>uint256\<close> and \<^verbatim>\<open>bytes32\<close> are 256-bit words, \<^verbatim>\<open>address\<close> is a 160-bit
  word, \<^verbatim>\<open>bytes\<close> is a list of octets. The encrypted types \<^verbatim>\<open>euint32\<close> and
  \<^verbatim>\<open>ebool\<close> are user-defined value types over \<^verbatim>\<open>bytes32\<close>: a handle.
\<close>

type_synonym address = "160 word"
type_synonym uint256 = "256 word"
type_synonym bytes32 = "256 word"
type_synonym bytes = "8 word list"
type_synonym euint32 = bytes32
type_synonym ebool = bytes32

text \<open>
  The custom errors of the contract, in the order of their declaration. Two further
  ways a call of this contract reverts are not custom errors: \<open>Panic\<close> is the checked
  arithmetic of Solidity 0.8 (an overflowing \<^verbatim>\<open>+\<close> or \<^verbatim>\<open>++\<close>), \<open>DecodeFailure\<close> is a
  slice out of range or an \<^verbatim>\<open>abi.decode\<close> of malformed data.
\<close>

datatype error =
    NotOwner
  | NotProvider
  | Paused
  | CooldownActive
  | BatchNotOpen
  | InvalidParameters
  | ReplayAttempt
  | StateMismatch
  | InvalidProof
  | NotInitialized
  | Panic
  | DecodeFailure

record DecryptionContext =
  batchId :: uint256
  stateHash :: bytes32
  processed :: bool

text \<open>
  The storage of the contract, one field per state variable. A Solidity mapping is total
  (a key never written reads as zero), so each mapping is a total function. The source
  declares \<^verbatim>\<open>encryptedEscapeVelocityThreshold\<close> as a mapping but assigns and reads it
  as one \<^verbatim>\<open>euint32\<close> everywhere (lines 136, 157, 160, 181); the model follows the uses.
\<close>

record storage =
  owner :: address
  providers :: "address \<Rightarrow> bool"
  paused :: bool
  cooldownSeconds :: uint256
  lastSubmissionTime :: "address \<Rightarrow> uint256"
  lastDecryptionRequestTime :: "address \<Rightarrow> uint256"
  decryptionContexts :: "uint256 \<Rightarrow> DecryptionContext"
  currentBatchId :: uint256
  batchOpen :: bool
  encryptedPlayerWealth :: "uint256 \<Rightarrow> euint32"
  encryptedEscapeVelocityThreshold :: euint32
  encryptedBaseWealth :: euint32
  encryptedBaseThreshold :: euint32
  encryptedThresholdGrowthRate :: euint32

datatype event =
    OwnershipTransferred address address
  | ProviderAdded address
  | ProviderRemoved address
  | ContractPaused
  | ContractUnpaused
  | CooldownSecondsUpdated uint256 uint256
  | BatchOpened uint256
  | BatchClosed uint256
  | WealthSubmitted address uint256 euint32
  | DecryptionRequested uint256 uint256
  | DecryptionCompleted uint256 uint256 uint256 uint256 bool

text \<open>
  What the host hands to one call: \<^verbatim>\<open>msg.sender\<close>, \<^verbatim>\<open>block.timestamp\<close>, and the
  request identifier that \<^verbatim>\<open>FHE.requestDecryption\<close> returns if the call makes a
  request (the identifier is drawn from a counter of the library, outside this source).
\<close>

record call =
  msg_sender :: address
  block_timestamp :: uint256
  FHE_requestId :: uint256

text \<open>
  The imported library \<^verbatim>\<open>@fhevm/solidity/lib/FHE.sol\<close>, the hash \<^verbatim>\<open>keccak256\<close> over
  \<^verbatim>\<open>abi.encode\<close>, and \<^verbatim>\<open>address(this)\<close> are not part of the source: they are
  parameters of every definition below. \<open>FHE_asEuint32\<close> takes the plaintext as the
  source passes it (the literals 100, 1000, 50, and the \<^verbatim>\<open>uint256\<close> batch identifier).
\<close>

record engine =
  FHE_asEuint32 :: "uint256 \<Rightarrow> euint32"
  FHE_add :: "euint32 \<Rightarrow> euint32 \<Rightarrow> euint32"
  FHE_mul :: "euint32 \<Rightarrow> euint32 \<Rightarrow> euint32"
  FHE_ge :: "euint32 \<Rightarrow> euint32 \<Rightarrow> ebool"
  FHE_isInitialized :: "euint32 \<Rightarrow> bool"
  FHE_toBytes32 :: "bytes32 \<Rightarrow> bytes32"
  FHE_checkSignatures :: "uint256 \<Rightarrow> bytes \<Rightarrow> bytes \<Rightarrow> bool"
  keccak256_abi_encode :: "bytes32 list \<Rightarrow> address \<Rightarrow> bytes32"
  address_this :: address

text \<open>
  The result of running a function body. \<open>Reverted e s\<close> carries the storage as the body
  had written it when it reverted, so that a write made before a failing check stays
  visible in the model; \<open>Returned s evs\<close> carries the final storage and the events.
  The EVM discards the writes of a reverted call: \<open>commit\<close> is the storage that the
  chain holds after the call.
\<close>

datatype outcome =
    Reverted error storage
  | Returned storage "event list"

fun commit :: "storage \<Rightarrow> outcome \<Rightarrow> storage" where
  "commit s (Reverted e s_at) = s"
| "commit s (Returned s' evs) = s'"

fun reverted_with :: "outcome \<Rightarrow> error option" where
  "reverted_with (Reverted e s_at) = Some e"
| "reverted_with (Returned s' evs) = None"

fun emitted :: "outcome \<Rightarrow> event list" where
  "emitted (Reverted e s_at) = []"
| "emitted (Returned s' evs) = evs"

section \<open>Modifiers and internal helpers\<close>

text \<open>
  A modifier is a check that either reverts or falls through to the rest of the
  function: \<open>Some e\<close> is the revert. \<open>first_error\<close> runs the modifiers of a function
  header from left to right.
\<close>

fun first_error :: "error option list \<Rightarrow> error option" where
  "first_error [] = None"
| "first_error (Some e # gs) = Some e"
| "first_error (None # gs) = first_error gs"

definition onlyOwner :: "call \<Rightarrow> storage \<Rightarrow> error option" where
  "onlyOwner c s = (if msg_sender c \<noteq> owner s then Some NotOwner else None)"

definition onlyProvider :: "call \<Rightarrow> storage \<Rightarrow> error option" where
  "onlyProvider c s = (if providers s (msg_sender c) then None else Some NotProvider)"

definition whenNotPaused :: "storage \<Rightarrow> error option" where
  "whenNotPaused s = (if paused s then Some Paused else None)"

text \<open>Checked addition of Solidity 0.8: \<open>None\<close> is the panic on overflow.\<close>

definition checked_add :: "uint256 \<Rightarrow> uint256 \<Rightarrow> uint256 option" where
  "checked_add a b = (if unat a + unat b < 2 ^ 256 then Some (a + b) else None)"

definition checkSubmissionCooldown :: "call \<Rightarrow> storage \<Rightarrow> address \<Rightarrow> error option" where
  "checkSubmissionCooldown c s a =
     (case checked_add (lastSubmissionTime s a) (cooldownSeconds s) of
        None \<Rightarrow> Some Panic
      | Some t \<Rightarrow> if block_timestamp c < t then Some CooldownActive else None)"

definition checkDecryptionCooldown :: "call \<Rightarrow> storage \<Rightarrow> address \<Rightarrow> error option" where
  "checkDecryptionCooldown c s a =
     (case checked_add (lastDecryptionRequestTime s a) (cooldownSeconds s) of
        None \<Rightarrow> Some Panic
      | Some t \<Rightarrow> if block_timestamp c < t then Some CooldownActive else None)"

definition requireInitialized :: "engine \<Rightarrow> euint32 \<Rightarrow> error option" where
  "requireInitialized eng v = (if FHE_isInitialized eng v then None else Some NotInitialized)"

definition hashCiphertexts :: "engine \<Rightarrow> bytes32 list \<Rightarrow> bytes32" where
  "hashCiphertexts eng cts = keccak256_abi_encode eng cts (address_this eng)"

definition calculateInitialThreshold :: "engine \<Rightarrow> storage \<Rightarrow> error + euint32" where
  "calculateInitialThreshold eng s =
     (case first_error [requireInitialized eng (encryptedBaseThreshold s),
                        requireInitialized eng (encryptedThresholdGrowthRate s)] of
        Some e \<Rightarrow> Inl e
      | None \<Rightarrow>
          Inr (FHE_add eng (encryptedBaseThreshold s)
                 (FHE_mul eng (encryptedThresholdGrowthRate s)
                    (FHE_asEuint32 eng (currentBatchId s)))))"

text \<open>
  The snapshot of three handles, as \<^verbatim>\<open>requestEscapeCheck\<close> and \<^verbatim>\<open>myCallback\<close> both
  build it from a wealth handle and the threshold, and its digest.
\<close>

definition snapshot :: "engine \<Rightarrow> euint32 \<Rightarrow> euint32 \<Rightarrow> bytes32 list" where
  "snapshot eng playerWealth currentThreshold =
     [FHE_toBytes32 eng playerWealth,
      FHE_toBytes32 eng currentThreshold,
      FHE_toBytes32 eng (FHE_ge eng playerWealth currentThreshold)]"

text \<open>
  Decoding the cleartexts: three 32-byte words at offsets 0, 32 and 64, the first two
  as big-endian \<^verbatim>\<open>uint256\<close>, the third as \<^verbatim>\<open>bool\<close> (0 or 1, anything else reverts).
\<close>

definition slice :: "bytes \<Rightarrow> nat \<Rightarrow> nat \<Rightarrow> bytes option" where
  "slice bs lo hi = (if hi \<le> length bs then Some (take (hi - lo) (drop lo bs)) else None)"

definition decode_uint256 :: "bytes \<Rightarrow> uint256" where
  "decode_uint256 bs = foldl (\<lambda>acc b. acc * 256 + ucast b) 0 bs"

definition decode_bool :: "bytes \<Rightarrow> bool option" where
  "decode_bool bs =
     (if decode_uint256 bs = 0 then Some False
      else if decode_uint256 bs = 1 then Some True
      else None)"

definition decode_cleartexts :: "bytes \<Rightarrow> (uint256 \<times> uint256 \<times> bool) option" where
  "decode_cleartexts cleartexts =
     (case slice cleartexts 0 32 of
        None \<Rightarrow> None
      | Some w \<Rightarrow>
          (case slice cleartexts 32 64 of
             None \<Rightarrow> None
           | Some t \<Rightarrow>
               (case slice cleartexts 64 96 of
                  None \<Rightarrow> None
                | Some e \<Rightarrow>
                    (case decode_bool e of
                       None \<Rightarrow> None
                     | Some escaped \<Rightarrow> Some (decode_uint256 w, decode_uint256 t, escaped)))))"

section \<open>The functions of the contract\<close>

definition constructor :: "call \<Rightarrow> storage" where
  "constructor c =
     \<lparr> owner = msg_sender c,
       providers = (\<lambda>a. False)(msg_sender c := True),
       paused = False,
       cooldownSeconds = 30,
       lastSubmissionTime = (\<lambda>a. 0),
       lastDecryptionRequestTime = (\<lambda>a. 0),
       decryptionContexts = (\<lambda>r. \<lparr> batchId = 0, stateHash = 0, processed = False \<rparr>),
       currentBatchId = 0,
       batchOpen = False,
       encryptedPlayerWealth = (\<lambda>p. 0),
       encryptedEscapeVelocityThreshold = 0,
       encryptedBaseWealth = 0,
       encryptedBaseThreshold = 0,
       encryptedThresholdGrowthRate = 0 \<rparr>"

definition transferOwnership :: "call \<Rightarrow> storage \<Rightarrow> address \<Rightarrow> outcome" where
  "transferOwnership c s newOwner =
     (case first_error [onlyOwner c s] of
        Some e \<Rightarrow> Reverted e s
      | None \<Rightarrow> Returned (s\<lparr>owner := newOwner\<rparr>) [OwnershipTransferred (owner s) newOwner])"

definition addProvider :: "call \<Rightarrow> storage \<Rightarrow> address \<Rightarrow> outcome" where
  "addProvider c s provider =
     (case first_error [onlyOwner c s] of
        Some e \<Rightarrow> Reverted e s
      | None \<Rightarrow> Returned (s\<lparr>providers := (providers s)(provider := True)\<rparr>) [ProviderAdded provider])"

definition removeProvider :: "call \<Rightarrow> storage \<Rightarrow> address \<Rightarrow> outcome" where
  "removeProvider c s provider =
     (case first_error [onlyOwner c s] of
        Some e \<Rightarrow> Reverted e s
      | None \<Rightarrow>
          Returned (s\<lparr>providers := (providers s)(provider := False)\<rparr>) [ProviderRemoved provider])"

definition pause :: "call \<Rightarrow> storage \<Rightarrow> outcome" where
  "pause c s =
     (case first_error [onlyOwner c s, whenNotPaused s] of
        Some e \<Rightarrow> Reverted e s
      | None \<Rightarrow> Returned (s\<lparr>paused := True\<rparr>) [ContractPaused])"

definition unpause :: "call \<Rightarrow> storage \<Rightarrow> outcome" where
  "unpause c s =
     (case first_error [onlyOwner c s] of
        Some e \<Rightarrow> Reverted e s
      | None \<Rightarrow> Returned (s\<lparr>paused := False\<rparr>) [ContractUnpaused])"

definition setCooldownSeconds :: "call \<Rightarrow> storage \<Rightarrow> uint256 \<Rightarrow> outcome" where
  "setCooldownSeconds c s newCooldownSeconds =
     (case first_error [onlyOwner c s] of
        Some e \<Rightarrow> Reverted e s
      | None \<Rightarrow>
          if newCooldownSeconds = 0 then Reverted InvalidParameters s
          else Returned (s\<lparr>cooldownSeconds := newCooldownSeconds\<rparr>)
                 [CooldownSecondsUpdated (cooldownSeconds s) newCooldownSeconds])"

text \<open>
  \<^verbatim>\<open>openBatch\<close> writes the batch identifier, the open flag and the three base handles
  before \<^verbatim>\<open>_calculateInitialThreshold\<close> runs its two initialisation checks, so a revert
  in there happens on the storage \<open>s5\<close>, not on \<open>s\<close>.
\<close>

definition openBatch :: "engine \<Rightarrow> call \<Rightarrow> storage \<Rightarrow> outcome" where
  "openBatch eng c s =
     (case first_error [onlyOwner c s, whenNotPaused s] of
        Some e \<Rightarrow> Reverted e s
      | None \<Rightarrow>
          (case (if batchOpen s then checked_add (currentBatchId s) 1
                 else Some (currentBatchId s)) of
             None \<Rightarrow> Reverted Panic s
           | Some n \<Rightarrow>
               (let s1 = s\<lparr>currentBatchId := n\<rparr>;
                    s2 = s1\<lparr>batchOpen := True\<rparr>;
                    s3 = s2\<lparr>encryptedBaseWealth := FHE_asEuint32 eng 100\<rparr>;
                    s4 = s3\<lparr>encryptedBaseThreshold := FHE_asEuint32 eng 1000\<rparr>;
                    s5 = s4\<lparr>encryptedThresholdGrowthRate := FHE_asEuint32 eng 50\<rparr>
                in (case calculateInitialThreshold eng s5 of
                      Inl e \<Rightarrow> Reverted e s5
                    | Inr t \<Rightarrow>
                        Returned (s5\<lparr>encryptedEscapeVelocityThreshold := t\<rparr>)
                          [BatchOpened (currentBatchId s5)]))))"

definition closeBatch :: "call \<Rightarrow> storage \<Rightarrow> outcome" where
  "closeBatch c s =
     (case first_error [onlyOwner c s, whenNotPaused s] of
        Some e \<Rightarrow> Reverted e s
      | None \<Rightarrow>
          if \<not> batchOpen s then Reverted BatchNotOpen s
          else Returned (s\<lparr>batchOpen := False\<rparr>) [BatchClosed (currentBatchId s)])"

definition submitPlayerWealth :: "engine \<Rightarrow> call \<Rightarrow> storage \<Rightarrow> uint256 \<Rightarrow> euint32 \<Rightarrow> outcome" where
  "submitPlayerWealth eng c s playerId encryptedWealth =
     (case first_error [onlyProvider c s, whenNotPaused s,
                        checkSubmissionCooldown c s (msg_sender c)] of
        Some e \<Rightarrow> Reverted e s
      | None \<Rightarrow>
          if \<not> batchOpen s then Reverted BatchNotOpen s
          else (case requireInitialized eng encryptedWealth of
                  Some e \<Rightarrow> Reverted e s
                | None \<Rightarrow>
                    Returned
                      (s\<lparr>encryptedPlayerWealth := (encryptedPlayerWealth s)(playerId := encryptedWealth),
                         lastSubmissionTime := (lastSubmissionTime s)(msg_sender c := block_timestamp c)\<rparr>)
                      [WealthSubmitted (msg_sender c) playerId encryptedWealth]))"

definition requestEscapeCheck :: "engine \<Rightarrow> call \<Rightarrow> storage \<Rightarrow> uint256 \<Rightarrow> outcome" where
  "requestEscapeCheck eng c s playerId =
     (case first_error [whenNotPaused s, checkDecryptionCooldown c s (msg_sender c)] of
        Some e \<Rightarrow> Reverted e s
      | None \<Rightarrow>
          if \<not> batchOpen s then Reverted BatchNotOpen s
          else (case first_error [requireInitialized eng (encryptedPlayerWealth s playerId),
                                  requireInitialized eng (encryptedEscapeVelocityThreshold s)] of
                  Some e \<Rightarrow> Reverted e s
                | None \<Rightarrow>
                    (let playerWealth = encryptedPlayerWealth s playerId;
                         currentThreshold = encryptedEscapeVelocityThreshold s;
                         cts = snapshot eng playerWealth currentThreshold;
                         stateHash = hashCiphertexts eng cts;
                         requestId = FHE_requestId c
                     in Returned
                          (s\<lparr>decryptionContexts := (decryptionContexts s)
                                (requestId := \<lparr> batchId = currentBatchId s, stateHash = stateHash,
                                                processed = False \<rparr>),
                             lastDecryptionRequestTime :=
                                (lastDecryptionRequestTime s)(msg_sender c := block_timestamp c)\<rparr>)
                          [DecryptionRequested requestId (currentBatchId s)])))"

text \<open>
  \<^verbatim>\<open>myCallback\<close> has no modifier and does not read \<^verbatim>\<open>msg.sender\<close>. It reads the wealth
  handle at the key \<^verbatim>\<open>context.batchId\<close> (line 180 of the source, with the comment
  "Placeholder, actual player ID would be needed"). \<open>recomputedStateHash\<close> is lines 180
  to 189 of the function, the value of \<^verbatim>\<open>currentStateHash\<close>; the rest of the body
  follows in \<open>myCallback\<close>. The internal function \<^verbatim>\<open>_initIfNeeded\<close> of the source is
  never called and has no model here.
\<close>

definition recomputedStateHash :: "engine \<Rightarrow> storage \<Rightarrow> uint256 \<Rightarrow> bytes32" where
  "recomputedStateHash eng s requestId =
     (let ctx = decryptionContexts s requestId;
          playerWealth = encryptedPlayerWealth s (batchId ctx);
          currentThreshold = encryptedEscapeVelocityThreshold s;
          currentCts = snapshot eng playerWealth currentThreshold
      in hashCiphertexts eng currentCts)"

definition myCallback :: "engine \<Rightarrow> storage \<Rightarrow> uint256 \<Rightarrow> bytes \<Rightarrow> bytes \<Rightarrow> outcome" where
  "myCallback eng s requestId cleartexts proof_bytes =
     (let ctx = decryptionContexts s requestId
      in if processed ctx then Reverted ReplayAttempt s
         else if recomputedStateHash eng s requestId \<noteq> stateHash ctx then Reverted StateMismatch s
         else if \<not> FHE_checkSignatures eng requestId cleartexts proof_bytes
           then Reverted InvalidProof s
         else (case decode_cleartexts cleartexts of
                 None \<Rightarrow> Reverted DecodeFailure s
               | Some (wealth, threshold, escaped) \<Rightarrow>
                   Returned
                     (s\<lparr>decryptionContexts :=
                          (decryptionContexts s)(requestId := ctx\<lparr>processed := True\<rparr>)\<rparr>)
                     [DecryptionCompleted requestId (batchId ctx) wealth threshold escaped]))"

section \<open>Calls from outside\<close>

datatype operation =
    TransferOwnership address
  | AddProvider address
  | RemoveProvider address
  | Pause
  | Unpause
  | SetCooldownSeconds uint256
  | OpenBatch
  | CloseBatch
  | SubmitPlayerWealth uint256 euint32
  | RequestEscapeCheck uint256
  | MyCallback uint256 bytes bytes

fun call_op :: "engine \<Rightarrow> call \<Rightarrow> storage \<Rightarrow> operation \<Rightarrow> outcome" where
  "call_op eng c s (TransferOwnership newOwner) = transferOwnership c s newOwner"
| "call_op eng c s (AddProvider provider) = addProvider c s provider"
| "call_op eng c s (RemoveProvider provider) = removeProvider c s provider"
| "call_op eng c s Pause = pause c s"
| "call_op eng c s Unpause = unpause c s"
| "call_op eng c s (SetCooldownSeconds n) = setCooldownSeconds c s n"
| "call_op eng c s OpenBatch = openBatch eng c s"
| "call_op eng c s CloseBatch = closeBatch c s"
| "call_op eng c s (SubmitPlayerWealth playerId encryptedWealth) =
     submitPlayerWealth eng c s playerId encryptedWealth"
| "call_op eng c s (RequestEscapeCheck playerId) = requestEscapeCheck eng c s playerId"
| "call_op eng c s (MyCallback requestId cleartexts proof_bytes) =
     myCallback eng s requestId cleartexts proof_bytes"

text \<open>A sequence of calls, each committed by the chain before the next one runs.\<close>

fun run :: "engine \<Rightarrow> storage \<Rightarrow> (call \<times> operation) list \<Rightarrow> storage" where
  "run eng s [] = s"
| "run eng s (x # xs) = run eng (commit s (call_op eng (fst x) s (snd x))) xs"

text \<open>
  Whether a call hands out the request identifier \<open>rid\<close> again: only
  \<^verbatim>\<open>requestEscapeCheck\<close> stores a context, under the identifier the library returns.
\<close>

definition reissues :: "uint256 \<Rightarrow> call \<times> operation \<Rightarrow> bool" where
  "reissues rid x =
     (case snd x of RequestEscapeCheck playerId \<Rightarrow> FHE_requestId (fst x) = rid | _ \<Rightarrow> False)"

text \<open>The functions whose header carries \<^verbatim>\<open>whenNotPaused\<close>.\<close>

fun pause_gated :: "operation \<Rightarrow> bool" where
  "pause_gated Pause = True"
| "pause_gated OpenBatch = True"
| "pause_gated CloseBatch = True"
| "pause_gated (SubmitPlayerWealth playerId encryptedWealth) = True"
| "pause_gated (RequestEscapeCheck playerId) = True"
| "pause_gated (TransferOwnership newOwner) = False"
| "pause_gated (AddProvider provider) = False"
| "pause_gated (RemoveProvider provider) = False"
| "pause_gated Unpause = False"
| "pause_gated (SetCooldownSeconds n) = False"
| "pause_gated (MyCallback requestId cleartexts proof_bytes) = False"

section \<open>A reference engine and concrete runs\<close>

text \<open>
  To run the contract on concrete inputs the parameters need values. \<open>test_engine\<close> is a
  stand-in that keeps the plaintext in the handle: the handle of the 32-bit value \<open>v\<close> is
  \<open>v + 1\<close>, the zero handle is the uninitialised one, an encrypted boolean is 2 (true) or
  1 (false). A proof verifies when it is the single octet 1, and the digest is a
  polynomial in the handles and the contract's address. It stands for no property of
  the real library; the theorems below hold for every engine.
\<close>

definition test_engine :: engine where
  "test_engine =
     \<lparr> FHE_asEuint32 = (\<lambda>v. take_bit 32 v + 1),
       FHE_add = (\<lambda>a b. take_bit 32 ((a - 1) + (b - 1)) + 1),
       FHE_mul = (\<lambda>a b. take_bit 32 ((a - 1) * (b - 1)) + 1),
       FHE_ge = (\<lambda>a b. if b - 1 \<le> a - 1 then 2 else 1),
       FHE_isInitialized = (\<lambda>h. h \<noteq> 0),
       FHE_toBytes32 = (\<lambda>h. h),
       FHE_checkSignatures = (\<lambda>requestId cleartexts proof_bytes. proof_bytes = [1]),
       keccak256_abi_encode = (\<lambda>cts a. foldr (\<lambda>x acc. x + 1000003 * acc) cts (ucast a)),
       address_this = 4096 \<rparr>"


definition test_decrypt :: "euint32 \<Rightarrow> 32 word" where
  "test_decrypt h = ucast (h - 1)"

definition alice :: address where
  "alice = 10"

definition bob :: address where
  "bob = 11"

definition at :: "address \<Rightarrow> uint256 \<Rightarrow> uint256 \<Rightarrow> call" where
  "at a t r = \<lparr> msg_sender = a, block_timestamp = t, FHE_requestId = r \<rparr>"

text \<open>\<^verbatim>\<open>abi.encode\<close> of a value below \<open>2 ^ 16\<close>: 30 zero octets, then the two low octets.\<close>

definition abi_word :: "uint256 \<Rightarrow> bytes" where
  "abi_word v = replicate 30 0 @ [ucast (drop_bit 8 v), ucast v]"

definition cleartexts_of :: "uint256 \<Rightarrow> uint256 \<Rightarrow> bool \<Rightarrow> bytes" where
  "cleartexts_of w t e = abi_word w @ abi_word t @ abi_word (if e then 1 else 0)"

text \<open>
  Alice deploys; \<open>opened\<close>: she opens batch 0; \<open>pending0\<close>: she submits the handle of
  100 for player 0 and Bob requests the escape check of player 0 (request 0);
  \<open>completed0\<close>: the callback of request 0 has been accepted; \<open>overwritten0\<close>: instead,
  player 0 got a new handle (of 1500) while request 0 was pending; \<open>stale0\<close>: the same
  overwrite after the callback was accepted. \<open>pending7\<close> is \<open>pending0\<close> for player 7, and
  in \<open>shadowed7\<close> players 0 and 7 hold the same handle when player 7 is requested and
  player 7 is overwritten afterwards.
\<close>

definition deployed :: storage where
  "deployed = constructor (at alice 0 0)"

definition opened :: storage where
  "opened = run test_engine deployed [(at alice 100 0, OpenBatch)]"

definition opened_closed :: storage where
  "opened_closed = run test_engine opened [(at alice 101 0, CloseBatch)]"

definition paused_state :: storage where
  "paused_state = run test_engine opened [(at alice 101 0, Pause)]"

definition pending0 :: storage where
  "pending0 = run test_engine opened
     [(at alice 100 0, SubmitPlayerWealth 0 101), (at bob 100 0, RequestEscapeCheck 0)]"

definition completed0 :: storage where
  "completed0 = run test_engine pending0
     [(at bob 150 0, MyCallback 0 (cleartexts_of 100 1000 False) [1])]"

definition overwritten0 :: storage where
  "overwritten0 = run test_engine pending0 [(at alice 200 0, SubmitPlayerWealth 0 1501)]"

definition stale0 :: storage where
  "stale0 = run test_engine completed0 [(at alice 200 0, SubmitPlayerWealth 0 1501)]"

definition pending7 :: storage where
  "pending7 = run test_engine opened
     [(at alice 100 0, SubmitPlayerWealth 7 101), (at bob 100 0, RequestEscapeCheck 7)]"

definition shadowed7 :: storage where
  "shadowed7 = run test_engine opened
     [(at alice 100 0, SubmitPlayerWealth 0 101), (at alice 130 0, SubmitPlayerWealth 7 101),
      (at bob 130 0, RequestEscapeCheck 7), (at alice 160 0, SubmitPlayerWealth 7 1501)]"

section \<open>Facts about single functions\<close>

lemmas guard_defs = onlyOwner_def onlyProvider_def whenNotPaused_def checked_add_def
  checkSubmissionCooldown_def checkDecryptionCooldown_def requireInitialized_def

lemmas body_defs = transferOwnership_def addProvider_def removeProvider_def
  pause_def unpause_def setCooldownSeconds_def openBatch_def closeBatch_def
  submitPlayerWealth_def requestEscapeCheck_def myCallback_def
  calculateInitialThreshold_def

lemmas run_defs = constructor_def body_defs guard_defs recomputedStateHash_def
  hashCiphertexts_def snapshot_def test_engine_def alice_def bob_def at_def

lemma outcome_of_parts:
  "reverted_with r = None \<Longrightarrow> r = Returned (commit s r) (emitted r)"
  by (cases r) simp_all

lemma decode_uint256_zeros: "decode_uint256 (replicate n 0 @ bs) = decode_uint256 bs"
  unfolding decode_uint256_def by (induction n) simp_all

lemma decode_abi_word:
  "decode_uint256 (abi_word v) = 256 * ucast (ucast (drop_bit 8 v) :: 8 word) + ucast (ucast v :: 8 word)"
  unfolding abi_word_def decode_uint256_zeros by (simp add: decode_uint256_def)

lemma length_abi_word: "length (abi_word v) = 32"
  by (simp add: abi_word_def)

lemma decode_cleartexts_of:
  "decode_cleartexts (cleartexts_of 100 1000 False) = Some (100, 1000, False)"
  by (simp add: decode_cleartexts_def cleartexts_of_def slice_def decode_bool_def
      length_abi_word decode_abi_word)

lemma myCallback_Returned:
  assumes "myCallback eng s rid ct pf = Returned s' evs"
  shows "\<not> processed (decryptionContexts s rid)"
    and "recomputedStateHash eng s rid = stateHash (decryptionContexts s rid)"
    and "FHE_checkSignatures eng rid ct pf"
    and "s' = s\<lparr>decryptionContexts :=
            (decryptionContexts s)(rid := (decryptionContexts s rid)\<lparr>processed := True\<rparr>)\<rparr>"
    and "\<exists>w t e. decode_cleartexts ct = Some (w, t, e) \<and>
           evs = [DecryptionCompleted rid (batchId (decryptionContexts s rid)) w t e]"
  using assms
  by (auto simp: myCallback_def Let_def split: if_splits option.splits)

lemma myCallback_processed:
  "processed (decryptionContexts s rid) \<Longrightarrow>
   myCallback eng s rid ct pf = Reverted ReplayAttempt s"
  by (simp add: myCallback_def)

lemma processed_kept:
  assumes "processed (decryptionContexts s rid)" and "\<not> reissues rid x"
  shows "processed (decryptionContexts (commit s (call_op eng (fst x) s (snd x))) rid)"
proof (cases "snd x")
  case (RequestEscapeCheck p)
  with assms show ?thesis
    by (simp add: reissues_def requestEscapeCheck_def Let_def split: option.splits)
next
  case (MyCallback r ct pf)
  with assms show ?thesis
    by (simp add: myCallback_def Let_def split: option.splits)
next
  case OpenBatch
  with assms show ?thesis
    by (simp add: openBatch_def Let_def split: option.splits sum.splits)
qed (use assms in \<open>simp_all add: body_defs split: option.splits\<close>)

lemma processed_run:
  "processed (decryptionContexts s rid) \<Longrightarrow> list_all (\<lambda>x. \<not> reissues rid x) tr \<Longrightarrow>
   processed (decryptionContexts (run eng s tr) rid)"
proof (induction tr arbitrary: s)
  case Nil
  then show ?case by simp
next
  case (Cons x xs)
  then show ?case by (simp add: processed_kept)
qed

section \<open>The snapshot at callback time\<close>

lemma pending7_facts:
  "encryptedPlayerWealth pending7 7 = 101"
  "encryptedPlayerWealth pending7 0 = 0"
  "encryptedEscapeVelocityThreshold pending7 = 1001"
  "processed (decryptionContexts pending7 0) = False"
  "batchId (decryptionContexts pending7 0) = 0"
  "stateHash (decryptionContexts pending7 0) =
     hashCiphertexts test_engine (snapshot test_engine 101 1001)"
  by (simp_all add: pending7_def opened_def deployed_def run_defs)

text \<open>
  Claim C1: at callback time the snapshot is recomputed from the ciphertexts of the player
  that \<^verbatim>\<open>requestEscapeCheck\<close> snapshotted. The source does not do that: the context
  stores no player identifier and \<^verbatim>\<open>myCallback\<close> reads the wealth handle under
  \<^verbatim>\<open>context.batchId\<close>. In \<open>pending7\<close> the request was made for player 7 in batch 0 and
  nothing changed afterwards: the stored digest is over the handle of player 7, the
  recomputed one is over the slot of player 0, which differs, and the callback with a
  verifying proof reverts with \<open>StateMismatch\<close>.
\<close>

theorem C1_callback_recomputes_from_batch_slot:
  "stateHash (decryptionContexts pending7 0) =
     hashCiphertexts test_engine
       (snapshot test_engine (encryptedPlayerWealth pending7 7)
          (encryptedEscapeVelocityThreshold pending7)) \<and>
   recomputedStateHash test_engine pending7 0 =
     hashCiphertexts test_engine
       (snapshot test_engine (encryptedPlayerWealth pending7 0)
          (encryptedEscapeVelocityThreshold pending7)) \<and>
   encryptedPlayerWealth pending7 0 \<noteq> encryptedPlayerWealth pending7 7 \<and>
   call_op test_engine (at bob 150 0) pending7
     (MyCallback 0 (cleartexts_of 100 1000 False) [1]) = Reverted StateMismatch pending7"
  by (simp add: pending7_facts myCallback_def recomputedStateHash_def)
     (simp add: hashCiphertexts_def snapshot_def test_engine_def)

text \<open>
  For every accepted request the two digests are over different slots: the stored one
  over the slot of the requested player, the recomputed one over the slot numbered like
  the current batch.
\<close>

lemma request_digest_and_callback_digest:
  assumes "requestEscapeCheck eng c s playerId = Returned s' evs"
  shows "stateHash (decryptionContexts s' (FHE_requestId c)) =
           hashCiphertexts eng
             (snapshot eng (encryptedPlayerWealth s' playerId)
                (encryptedEscapeVelocityThreshold s'))"
    and "recomputedStateHash eng s' (FHE_requestId c) =
           hashCiphertexts eng
             (snapshot eng (encryptedPlayerWealth s' (currentBatchId s'))
                (encryptedEscapeVelocityThreshold s'))"
  using assms
  by (auto simp: requestEscapeCheck_def recomputedStateHash_def Let_def
      split: option.splits if_splits)

text \<open>
  The other direction of the same defect: in \<open>shadowed7\<close> players 0 and 7 held the same
  handle when player 7 was requested, and player 7 was overwritten afterwards. The
  callback reads the slot of player 0, finds the digest unchanged and publishes the
  decryption of the handle that player 7 no longer has. In general a write to any
  player other than the one numbered like the batch has no influence on the callback.
\<close>

lemma shadowed7_facts:
  "encryptedPlayerWealth shadowed7 7 = 1501"
  "encryptedPlayerWealth shadowed7 0 = 101"
  "encryptedEscapeVelocityThreshold shadowed7 = 1001"
  "processed (decryptionContexts shadowed7 0) = False"
  "batchId (decryptionContexts shadowed7 0) = 0"
  "stateHash (decryptionContexts shadowed7 0) =
     hashCiphertexts test_engine (snapshot test_engine 101 1001)"
  by (simp_all add: shadowed7_def opened_def deployed_def run_defs)

lemma callback_accepts_after_requested_player_changed:
  "encryptedPlayerWealth shadowed7 7 = 1501 \<and>
   stateHash (decryptionContexts shadowed7 0) =
     hashCiphertexts test_engine (snapshot test_engine 101 1001) \<and>
   emitted (call_op test_engine (at bob 200 0) shadowed7
     (MyCallback 0 (cleartexts_of 100 1000 False) [1])) = [DecryptionCompleted 0 0 100 1000 False]"
  by (simp add: shadowed7_facts myCallback_def recomputedStateHash_def decode_cleartexts_of
      hashCiphertexts_def snapshot_def test_engine_def)

lemma callback_ignores_other_players:
  assumes "p \<noteq> batchId (decryptionContexts s rid)"
  shows "reverted_with (myCallback eng (s\<lparr>encryptedPlayerWealth := (encryptedPlayerWealth s)(p := h)\<rparr>) rid ct pf) =
         reverted_with (myCallback eng s rid ct pf)"
  using assms
  by (simp add: myCallback_def recomputedStateHash_def Let_def split: option.splits)

section \<open>Replay protection\<close>

text \<open>
  Claim C2: a callback is accepted at most once per request identifier. After a callback
  for \<open>rid\<close> has returned (the context is marked processed and the completed event is
  emitted), and after any further calls \<open>tr\<close> of any functions by any callers, as long as
  the library does not hand out \<open>rid\<close> a second time, every callback for \<open>rid\<close>, from
  any caller and with any cleartexts and proof, reverts with \<open>ReplayAttempt\<close> on
  unchanged storage.
\<close>

theorem C2_callback_accepted_at_most_once:
  assumes "call_op eng c s (MyCallback rid ct pf) = Returned s' evs"
    and "list_all (\<lambda>x. \<not> reissues rid x) tr"
  shows "processed (decryptionContexts s' rid) \<and>
         (\<exists>w t e. evs = [DecryptionCompleted rid (batchId (decryptionContexts s rid)) w t e]) \<and>
         call_op eng c' (run eng s' tr) (MyCallback rid ct' pf') =
           Reverted ReplayAttempt (run eng s' tr) \<and>
         commit (run eng s' tr) (call_op eng c' (run eng s' tr) (MyCallback rid ct' pf')) =
           run eng s' tr"
proof -
  from assms(1) have r: "myCallback eng s rid ct pf = Returned s' evs" by simp
  from myCallback_Returned(4) [OF r] have p: "processed (decryptionContexts s' rid)"
    by simp
  from myCallback_Returned(5) [OF r]
  have ev: "\<exists>w t e. evs = [DecryptionCompleted rid (batchId (decryptionContexts s rid)) w t e]"
    by blast
  from p assms(2) have "processed (decryptionContexts (run eng s' tr) rid)"
    by (rule processed_run)
  then have "myCallback eng (run eng s' tr) rid ct' pf' = Reverted ReplayAttempt (run eng s' tr)"
    by (rule myCallback_processed)
  with p ev show ?thesis by simp
qed

lemma pending0_accepts:
  "reverted_with (call_op test_engine (at bob 150 0) pending0
      (MyCallback 0 (cleartexts_of 100 1000 False) [1])) = None"
  by (simp add: pending0_def opened_def deployed_def run_defs decode_cleartexts_of)

text \<open>
  The run behind \<open>completed0\<close>: request 0 was accepted; player 0 is then overwritten and
  requested again under identifier 1; a callback for identifier 0 is a replay.
\<close>

theorem C2_witness:
  "call_op test_engine (at alice 300 0)
     (run test_engine completed0
        [(at alice 200 0, SubmitPlayerWealth 0 1501), (at bob 200 1, RequestEscapeCheck 0)])
     (MyCallback 0 (cleartexts_of 1500 1000 True) [1]) =
   Reverted ReplayAttempt
     (run test_engine completed0
        [(at alice 200 0, SubmitPlayerWealth 0 1501), (at bob 200 1, RequestEscapeCheck 0)])"
proof -
  have a: "call_op test_engine (at bob 150 0) pending0
             (MyCallback 0 (cleartexts_of 100 1000 False) [1]) =
           Returned completed0 (emitted (call_op test_engine (at bob 150 0) pending0
             (MyCallback 0 (cleartexts_of 100 1000 False) [1])))"
    using outcome_of_parts [OF pending0_accepts, of pending0]
    by (simp add: completed0_def)
  have b: "list_all (\<lambda>x. \<not> reissues 0 x)
             [(at alice 200 0, SubmitPlayerWealth 0 1501), (at bob 200 1, RequestEscapeCheck 0)]"
    by (simp add: reissues_def at_def)
  from C2_callback_accepted_at_most_once [OF a b] show ?thesis by blast
qed

section \<open>Digest comparison\<close>

text \<open>
  Claim C3 says that every callback whose recomputed digest differs from the stored one
  fails with \<open>StateMismatch\<close>. The replay check runs first: in \<open>stale0\<close> the context of
  request 0 is processed and player 0 was overwritten afterwards, so the digests differ,
  and the callback reverts with \<open>ReplayAttempt\<close>.
\<close>

theorem C3_counterexample:
  "recomputedStateHash test_engine stale0 0 \<noteq> stateHash (decryptionContexts stale0 0) \<and>
   call_op test_engine (at bob 300 0) stale0 (MyCallback 0 (cleartexts_of 100 1000 False) [1]) =
     Reverted ReplayAttempt stale0"
proof -
  have p: "processed (decryptionContexts stale0 0)"
    by (simp add: stale0_def completed0_def pending0_def opened_def deployed_def run_defs
        decode_cleartexts_of)
  have h: "recomputedStateHash test_engine stale0 0 \<noteq> stateHash (decryptionContexts stale0 0)"
    by (simp add: stale0_def completed0_def pending0_def opened_def deployed_def run_defs
        decode_cleartexts_of)
  from p h show ?thesis by (simp add: myCallback_def)
qed

text \<open>
  Claim C3 as amended: for every callback on a context that is not yet processed and
  whose recomputed digest differs from the stored \<open>stateHash\<close>, the callback reverts with
  \<open>StateMismatch\<close>, whatever \<^verbatim>\<open>FHE.checkSignatures\<close> would answer (the engine is
  arbitrary); the storage is unchanged, so the context stays unprocessed, and no event
  is emitted.
\<close>

theorem C3_mismatch_on_pending_context:
  assumes "\<not> processed (decryptionContexts s rid)"
    and "recomputedStateHash eng s rid \<noteq> stateHash (decryptionContexts s rid)"
  shows "call_op eng c s (MyCallback rid ct pf) = Reverted StateMismatch s \<and>
         commit s (call_op eng c s (MyCallback rid ct pf)) = s \<and>
         \<not> processed (decryptionContexts (commit s (call_op eng c s (MyCallback rid ct pf))) rid) \<and>
         emitted (call_op eng c s (MyCallback rid ct pf)) = []"
  using assms by (simp add: myCallback_def)

text \<open>
  The scenario of the specification: player 0 is overwritten while request 0 is pending;
  the callback then fails although its proof verifies.
\<close>

theorem C3_witness:
  "call_op test_engine (at bob 300 0) overwritten0
     (MyCallback 0 (cleartexts_of 100 1000 False) [1]) = Reverted StateMismatch overwritten0 \<and>
   FHE_checkSignatures test_engine 0 (cleartexts_of 100 1000 False) [1]"
proof -
  have p: "\<not> processed (decryptionContexts overwritten0 0)"
    by (simp add: overwritten0_def pending0_def opened_def deployed_def run_defs)
  have h: "recomputedStateHash test_engine overwritten0 0 \<noteq>
           stateHash (decryptionContexts overwritten0 0)"
    by (simp add: overwritten0_def pending0_def opened_def deployed_def run_defs)
  from C3_mismatch_on_pending_context [OF p h] show ?thesis
    by (simp add: test_engine_def)
qed

section \<open>The pause flag\<close>

lemma paused_state_facts:
  "paused paused_state" "owner paused_state = alice"
  by (simp_all add: paused_state_def opened_def deployed_def run_defs)

text \<open>
  Claim C4 says that while paused every function but \<^verbatim>\<open>unpause\<close> is rejected. In
  \<open>paused_state\<close> the owner transfers the ownership, and the call returns and changes
  the owner: \<^verbatim>\<open>transferOwnership\<close> carries \<^verbatim>\<open>onlyOwner\<close> only.
\<close>

theorem C4_counterexample:
  "paused paused_state \<and>
   call_op test_engine (at alice 102 0) paused_state (TransferOwnership bob) =
     Returned (paused_state\<lparr>owner := bob\<rparr>) [OwnershipTransferred alice bob] \<and>
   owner (commit paused_state
     (call_op test_engine (at alice 102 0) paused_state (TransferOwnership bob))) \<noteq>
   owner paused_state"
  by (simp add: paused_state_facts transferOwnership_def onlyOwner_def at_def alice_def bob_def)

text \<open>
  Claim C4 as amended: whenever the pause flag is set, \<^verbatim>\<open>pause\<close>, \<^verbatim>\<open>openBatch\<close>,
  \<^verbatim>\<open>closeBatch\<close>, \<^verbatim>\<open>submitPlayerWealth\<close> and \<^verbatim>\<open>requestEscapeCheck\<close> revert
  (with \<open>Paused\<close>, or with \<open>NotOwner\<close> or \<open>NotProvider\<close> where that check comes first)
  and change no state; \<^verbatim>\<open>transferOwnership\<close>, \<^verbatim>\<open>addProvider\<close>,
  \<^verbatim>\<open>removeProvider\<close>, \<^verbatim>\<open>setCooldownSeconds\<close>, \<^verbatim>\<open>unpause\<close> and the callback are not
  gated and behave the same with the flag set and unset: the same error or the same
  events, and the same storage written apart from the flag itself, which all of them
  leave as it is except \<^verbatim>\<open>unpause\<close>, which clears it when the owner calls.
\<close>

theorem C4_pause_gates_guarded_functions:
  "(paused s \<and> pause_gated op \<longrightarrow>
      (\<exists>e. (e = NotOwner \<or> e = NotProvider \<or> e = Paused) \<and>
           call_op eng c s op = Reverted e s) \<and>
      commit s (call_op eng c s op) = s) \<and>
   (\<not> pause_gated op \<longrightarrow>
      reverted_with (call_op eng c (s\<lparr>paused := True\<rparr>) op) =
        reverted_with (call_op eng c (s\<lparr>paused := False\<rparr>) op) \<and>
      emitted (call_op eng c (s\<lparr>paused := True\<rparr>) op) =
        emitted (call_op eng c (s\<lparr>paused := False\<rparr>) op) \<and>
      (commit (s\<lparr>paused := True\<rparr>) (call_op eng c (s\<lparr>paused := True\<rparr>) op))\<lparr>paused := x\<rparr> =
        (commit (s\<lparr>paused := False\<rparr>) (call_op eng c (s\<lparr>paused := False\<rparr>) op))\<lparr>paused := x\<rparr> \<and>
      (op \<noteq> Unpause \<longrightarrow>
         paused (commit (s\<lparr>paused := True\<rparr>) (call_op eng c (s\<lparr>paused := True\<rparr>) op)) \<and>
         \<not> paused (commit (s\<lparr>paused := False\<rparr>) (call_op eng c (s\<lparr>paused := False\<rparr>) op))) \<and>
      (op = Unpause \<longrightarrow>
         paused (commit (s\<lparr>paused := True\<rparr>) (call_op eng c (s\<lparr>paused := True\<rparr>) op)) =
           (msg_sender c \<noteq> owner s) \<and>
         \<not> paused (commit (s\<lparr>paused := False\<rparr>) (call_op eng c (s\<lparr>paused := False\<rparr>) op))))"
proof (cases op)
  case (MyCallback r ct pf)
  then show ?thesis
    by (simp add: myCallback_def recomputedStateHash_def Let_def split: option.splits)
qed (simp_all add: body_defs guard_defs)

text \<open>
  In \<open>paused_state\<close> the owner cannot open a batch, can unpause, and transfers the
  ownership with the same event as on the unpaused contract, the flag staying set.
\<close>

theorem C4_witness:
  "call_op test_engine (at alice 102 0) paused_state OpenBatch = Reverted Paused paused_state \<and>
   \<not> paused (commit (paused_state\<lparr>paused := True\<rparr>)
      (call_op test_engine (at alice 102 0) (paused_state\<lparr>paused := True\<rparr>) Unpause)) \<and>
   emitted (call_op test_engine (at alice 102 0) (paused_state\<lparr>paused := True\<rparr>)
      (TransferOwnership bob)) =
   emitted (call_op test_engine (at alice 102 0) (paused_state\<lparr>paused := False\<rparr>)
      (TransferOwnership bob)) \<and>
   paused (commit (paused_state\<lparr>paused := True\<rparr>)
      (call_op test_engine (at alice 102 0) (paused_state\<lparr>paused := True\<rparr>)
         (TransferOwnership bob)))"
proof -
  have a: "paused paused_state \<and> pause_gated OpenBatch"
    by (simp add: paused_state_facts)
  have b: "\<not> pause_gated Unpause" "Unpause = Unpause" by simp_all
  have d: "\<not> pause_gated (TransferOwnership bob)" "TransferOwnership bob \<noteq> Unpause" by simp_all
  have o: "msg_sender (at alice 102 0) = owner paused_state"
    by (simp add: paused_state_facts at_def)
  from C4_pause_gates_guarded_functions [of paused_state OpenBatch test_engine "at alice 102 0"] a
  have "\<exists>e. (e = NotOwner \<or> e = NotProvider \<or> e = Paused) \<and>
          call_op test_engine (at alice 102 0) paused_state OpenBatch = Reverted e paused_state"
    by blast
  moreover have "reverted_with (call_op test_engine (at alice 102 0) paused_state OpenBatch) = Some Paused"
    by (simp add: openBatch_def guard_defs paused_state_facts at_def)
  ultimately have 1: "call_op test_engine (at alice 102 0) paused_state OpenBatch =
      Reverted Paused paused_state"
    by auto
  from C4_pause_gates_guarded_functions [of paused_state Unpause test_engine "at alice 102 0"] b o
  have 2: "\<not> paused (commit (paused_state\<lparr>paused := True\<rparr>)
      (call_op test_engine (at alice 102 0) (paused_state\<lparr>paused := True\<rparr>) Unpause))"
    by blast
  from C4_pause_gates_guarded_functions
         [of paused_state "TransferOwnership bob" test_engine "at alice 102 0"] d
  have 3: "emitted (call_op test_engine (at alice 102 0) (paused_state\<lparr>paused := True\<rparr>)
      (TransferOwnership bob)) =
   emitted (call_op test_engine (at alice 102 0) (paused_state\<lparr>paused := False\<rparr>)
      (TransferOwnership bob)) \<and>
   paused (commit (paused_state\<lparr>paused := True\<rparr>)
      (call_op test_engine (at alice 102 0) (paused_state\<lparr>paused := True\<rparr>)
         (TransferOwnership bob)))"
    by blast
  from 1 2 3 show ?thesis by simp
qed

section \<open>The batch lifecycle\<close>

lemma openBatch_Returned:
  assumes "openBatch eng c s = Returned s' evs"
  shows "msg_sender c = owner s" and "\<not> paused s"
    and "batchOpen s'"
    and "\<not> batchOpen s \<Longrightarrow> currentBatchId s' = currentBatchId s"
    and "batchOpen s \<Longrightarrow> unat (currentBatchId s') = unat (currentBatchId s) + 1"
    and "encryptedBaseWealth s' = FHE_asEuint32 eng 100"
    and "encryptedBaseThreshold s' = FHE_asEuint32 eng 1000"
    and "encryptedThresholdGrowthRate s' = FHE_asEuint32 eng 50"
    and "encryptedEscapeVelocityThreshold s' =
           FHE_add eng (encryptedBaseThreshold s')
             (FHE_mul eng (encryptedThresholdGrowthRate s') (FHE_asEuint32 eng (currentBatchId s')))"
    and "evs = [BatchOpened (currentBatchId s')]"
  using assms
  by (auto simp: openBatch_def calculateInitialThreshold_def guard_defs Let_def unat_word_ariths
      split: if_splits option.splits sum.splits)

lemma closeBatch_Returned:
  assumes "closeBatch c s = Returned s' evs"
  shows "s' = s\<lparr>batchOpen := False\<rparr>" and "batchOpen s" and "evs = [BatchClosed (currentBatchId s)]"
  using assms by (auto simp: closeBatch_def guard_defs split: if_splits)

lemma closeBatch_keeps_id:
  "currentBatchId (commit s (closeBatch c s)) = currentBatchId s"
  by (simp add: closeBatch_def guard_defs)

lemma opened_closed_facts:
  "currentBatchId opened_closed = 0" "\<not> batchOpen opened_closed"
  "owner opened_closed = alice" "\<not> paused opened_closed"
  by (simp_all add: opened_closed_def opened_def deployed_def run_defs)

text \<open>
  Claim C5 says that the \<^verbatim>\<open>openBatch\<close> after a close advances the batch identifier.
  The source increments only if the batch is open when \<^verbatim>\<open>openBatch\<close> is called: batch
  0 was opened and closed in \<open>opened_closed\<close>, and the next \<^verbatim>\<open>openBatch\<close> returns with
  the identifier still 0.
\<close>

theorem C5_counterexample:
  "currentBatchId opened_closed = 0 \<and> \<not> batchOpen opened_closed \<and>
   reverted_with (call_op test_engine (at alice 102 0) opened_closed OpenBatch) = None \<and>
   currentBatchId (commit opened_closed
      (call_op test_engine (at alice 102 0) opened_closed OpenBatch)) = 0"
  by (simp add: opened_closed_facts openBatch_def calculateInitialThreshold_def guard_defs
      test_engine_def at_def)

text \<open>
  Claim C5 as amended: \<^verbatim>\<open>closeBatch\<close> never changes the batch identifier; an
  \<^verbatim>\<open>openBatch\<close> on a closed batch reopens it under the same identifier; only an
  \<^verbatim>\<open>openBatch\<close> on a batch that is still open advances the identifier, by one.
\<close>

theorem C5_close_keeps_id_open_after_close_keeps_id:
  "currentBatchId (commit s (call_op eng c s CloseBatch)) = currentBatchId s \<and>
   (\<not> batchOpen s \<and> call_op eng c s OpenBatch = Returned s' evs \<longrightarrow>
      currentBatchId s' = currentBatchId s \<and> batchOpen s') \<and>
   (batchOpen s \<and> call_op eng c s OpenBatch = Returned s' evs \<longrightarrow>
      unat (currentBatchId s') = unat (currentBatchId s) + 1 \<and> batchOpen s')"
  using openBatch_Returned(3,4,5) [of eng c s s' evs]
  by (simp add: closeBatch_keeps_id)

lemma opened_facts:
  "currentBatchId opened = 0" "batchOpen opened" "owner opened = alice" "\<not> paused opened"
  "encryptedEscapeVelocityThreshold opened = 1001" "providers opened alice"
  "lastSubmissionTime opened alice = 0" "cooldownSeconds opened = 30"
  "\<not> providers opened bob"
  by (simp_all add: opened_def deployed_def run_defs)

lemma reopen_accepts:
  "reverted_with (call_op test_engine (at alice 102 0) opened OpenBatch) = None"
  by (simp add: opened_facts openBatch_def calculateInitialThreshold_def guard_defs
      test_engine_def at_def)

lemma open_after_close_accepts:
  "reverted_with (call_op test_engine (at alice 102 0) opened_closed OpenBatch) = None"
  by (simp add: opened_closed_facts openBatch_def calculateInitialThreshold_def guard_defs
      test_engine_def at_def)

text \<open>Closing batch 0, reopening it after the close, and reopening it while open.\<close>

theorem C5_witness:
  "currentBatchId (commit opened (call_op test_engine (at alice 101 0) opened CloseBatch)) =
     currentBatchId opened \<and>
   currentBatchId (commit opened_closed
      (call_op test_engine (at alice 102 0) opened_closed OpenBatch)) = currentBatchId opened_closed \<and>
   unat (currentBatchId (commit opened (call_op test_engine (at alice 102 0) opened OpenBatch))) =
     unat (currentBatchId opened) + 1"
proof -
  let ?r1 = "call_op test_engine (at alice 102 0) opened_closed OpenBatch"
  let ?r2 = "call_op test_engine (at alice 102 0) opened OpenBatch"
  have a: "\<not> batchOpen opened_closed \<and>
           ?r1 = Returned (commit opened_closed ?r1) (emitted ?r1)"
    using outcome_of_parts [OF open_after_close_accepts] by (simp add: opened_closed_facts)
  have b: "batchOpen opened \<and> ?r2 = Returned (commit opened ?r2) (emitted ?r2)"
    using outcome_of_parts [OF reopen_accepts] by (simp add: opened_facts)
  from C5_close_keeps_id_open_after_close_keeps_id
         [of opened test_engine "at alice 101 0" "commit opened_closed ?r1" "emitted ?r1"]
  have 1: "currentBatchId (commit opened (call_op test_engine (at alice 101 0) opened CloseBatch)) =
     currentBatchId opened" by blast
  from C5_close_keeps_id_open_after_close_keeps_id
         [of opened_closed test_engine "at alice 102 0" "commit opened_closed ?r1" "emitted ?r1"] a
  have 2: "currentBatchId (commit opened_closed ?r1) = currentBatchId opened_closed" by blast
  from C5_close_keeps_id_open_after_close_keeps_id
         [of opened test_engine "at alice 102 0" "commit opened ?r2" "emitted ?r2"] b
  have 3: "unat (currentBatchId (commit opened ?r2)) = unat (currentBatchId opened) + 1" by blast
  from 1 2 3 show ?thesis by simp
qed

lemma deployed_facts:
  "\<not> batchOpen deployed" "owner deployed = alice" "\<not> paused deployed" "currentBatchId deployed = 0"
  by (simp_all add: deployed_def run_defs)

text \<open>
  Claim C6 says that \<^verbatim>\<open>closeBatch\<close> with no batch open always fails with
  \<open>BatchNotOpen\<close>. The modifiers run before the body: for a caller that is not the
  owner the error is \<open>NotOwner\<close>.
\<close>

theorem C6_counterexample:
  "\<not> batchOpen deployed \<and>
   call_op test_engine (at bob 1 0) deployed CloseBatch = Reverted NotOwner deployed"
  by (simp add: deployed_facts closeBatch_def guard_defs at_def alice_def bob_def)

text \<open>
  Claim C6 as amended: for every state, when \<^verbatim>\<open>openBatch\<close> returns twice in succession
  the second call increases the batch identifier by exactly one (which is also one more
  than before the first call if the batch was closed then) and sets the threshold anew
  from the constants and the new identifier; and \<^verbatim>\<open>closeBatch\<close> with no batch open
  always fails and changes no state, with \<open>NotOwner\<close> for a caller that is not the
  owner, else with \<open>Paused\<close> while paused, else with \<open>BatchNotOpen\<close>.
\<close>

theorem C6_reopen_adds_one_close_on_closed_fails:
  "(call_op eng c1 s OpenBatch = Returned s1 evs1 \<and>
    call_op eng c2 s1 OpenBatch = Returned s2 evs2 \<longrightarrow>
      unat (currentBatchId s2) = unat (currentBatchId s1) + 1 \<and>
      (\<not> batchOpen s \<longrightarrow> unat (currentBatchId s2) = unat (currentBatchId s) + 1) \<and>
      encryptedEscapeVelocityThreshold s2 =
        FHE_add eng (FHE_asEuint32 eng 1000)
          (FHE_mul eng (FHE_asEuint32 eng 50) (FHE_asEuint32 eng (currentBatchId s2)))) \<and>
   (\<not> batchOpen s \<longrightarrow>
      call_op eng c s CloseBatch =
        Reverted (if msg_sender c \<noteq> owner s then NotOwner
                  else if paused s then Paused else BatchNotOpen) s \<and>
      commit s (call_op eng c s CloseBatch) = s)"
proof -
  have "unat (currentBatchId s2) = unat (currentBatchId s1) + 1 \<and>
      (\<not> batchOpen s \<longrightarrow> unat (currentBatchId s2) = unat (currentBatchId s) + 1) \<and>
      encryptedEscapeVelocityThreshold s2 =
        FHE_add eng (FHE_asEuint32 eng 1000)
          (FHE_mul eng (FHE_asEuint32 eng 50) (FHE_asEuint32 eng (currentBatchId s2)))"
    if a: "openBatch eng c1 s = Returned s1 evs1" and b: "openBatch eng c2 s1 = Returned s2 evs2"
  proof -
    from openBatch_Returned(3) [OF a] have o: "batchOpen s1" .
    from openBatch_Returned(5) [OF b o]
    have 1: "unat (currentBatchId s2) = unat (currentBatchId s1) + 1" .
    from openBatch_Returned(4) [OF a]
    have 2: "\<not> batchOpen s \<longrightarrow> currentBatchId s1 = currentBatchId s" by simp
    from openBatch_Returned(7,8,9) [OF b]
    have 3: "encryptedEscapeVelocityThreshold s2 =
        FHE_add eng (FHE_asEuint32 eng 1000)
          (FHE_mul eng (FHE_asEuint32 eng 50) (FHE_asEuint32 eng (currentBatchId s2)))"
      by simp
    from 1 2 3 show ?thesis by simp
  qed
  moreover have "\<not> batchOpen s \<longrightarrow>
      call_op eng c s CloseBatch =
        Reverted (if msg_sender c \<noteq> owner s then NotOwner
                  else if paused s then Paused else BatchNotOpen) s \<and>
      commit s (call_op eng c s CloseBatch) = s"
    by (simp add: closeBatch_def guard_defs)
  ultimately show ?thesis by auto
qed

lemma deployed_open_accepts:
  "reverted_with (call_op test_engine (at alice 100 0) deployed OpenBatch) = None"
  by (simp add: deployed_facts openBatch_def calculateInitialThreshold_def guard_defs
      test_engine_def at_def)

text \<open>Opening twice after deployment gives batch 1 with threshold handle 1051.\<close>

theorem C6_witness:
  "unat (currentBatchId (commit opened (call_op test_engine (at alice 102 0) opened OpenBatch))) =
     unat (currentBatchId deployed) + 1 \<and>
   encryptedEscapeVelocityThreshold
     (commit opened (call_op test_engine (at alice 102 0) opened OpenBatch)) = 1051 \<and>
   call_op test_engine (at alice 1 0) deployed CloseBatch = Reverted BatchNotOpen deployed"
proof -
  let ?r1 = "call_op test_engine (at alice 100 0) deployed OpenBatch"
  let ?r2 = "call_op test_engine (at alice 102 0) opened OpenBatch"
  have a: "?r1 = Returned opened (emitted ?r1)"
    using outcome_of_parts [OF deployed_open_accepts, of deployed] by (simp add: opened_def)
  have b: "?r2 = Returned (commit opened ?r2) (emitted ?r2)"
    using outcome_of_parts [OF reopen_accepts] .
  have n: "\<not> batchOpen deployed" by (simp add: deployed_facts)
  from C6_reopen_adds_one_close_on_closed_fails
         [of test_engine "at alice 100 0" deployed opened "emitted ?r1" "at alice 102 0"
             "commit opened ?r2" "emitted ?r2" "at alice 1 0"] a b n
  have "unat (currentBatchId (commit opened ?r2)) = unat (currentBatchId deployed) + 1 \<and>
      encryptedEscapeVelocityThreshold (commit opened ?r2) =
        FHE_add test_engine (FHE_asEuint32 test_engine 1000)
          (FHE_mul test_engine (FHE_asEuint32 test_engine 50)
             (FHE_asEuint32 test_engine (currentBatchId (commit opened ?r2)))) \<and>
      call_op test_engine (at alice 1 0) deployed CloseBatch =
        Reverted (if msg_sender (at alice 1 0) \<noteq> owner deployed then NotOwner
                  else if paused deployed then Paused else BatchNotOpen) deployed"
    by blast
  moreover have "currentBatchId (commit opened ?r2) = 1"
    by (simp add: opened_facts openBatch_def calculateInitialThreshold_def guard_defs
      test_engine_def at_def)
  ultimately show ?thesis
    by (simp add: deployed_facts at_def test_engine_def)
qed

section \<open>Submission\<close>

lemma unat_sum_less:
  fixes a b t :: uint256
  assumes "unat a + unat b < 2 ^ 256"
  shows "(t < a + b) = (unat t < unat a + unat b)"
proof -
  from assms have "unat (a + b) = unat a + unat b"
    by (simp add: unat_word_ariths)
  then show ?thesis by (simp add: word_less_nat_alt)
qed

lemma unat_bound_256: "unat (t :: uint256) < 2 ^ 256"
  using unsigned_less [of t, where ?'a = nat] by simp

lemma checkSubmissionCooldown_None:
  "(checkSubmissionCooldown c s a = None) =
   (unat (lastSubmissionTime s a) + unat (cooldownSeconds s) \<le> unat (block_timestamp c))"
proof (cases "unat (lastSubmissionTime s a) + unat (cooldownSeconds s) < 2 ^ 256")
  case True
  then show ?thesis
    by (simp add: checkSubmissionCooldown_def checked_add_def unat_sum_less not_less)
next
  case False
  with unat_bound_256 [of "block_timestamp c"] show ?thesis
    by (simp add: checkSubmissionCooldown_def checked_add_def)
qed

lemma submitPlayerWealth_accepts_iff:
  "(reverted_with (submitPlayerWealth eng c s p h) = None) =
   (providers s (msg_sender c) \<and> \<not> paused s \<and>
    unat (lastSubmissionTime s (msg_sender c)) + unat (cooldownSeconds s) \<le> unat (block_timestamp c) \<and>
    batchOpen s \<and> FHE_isInitialized eng h)"
proof (cases "checkSubmissionCooldown c s (msg_sender c)")
  case None
  then show ?thesis
    using checkSubmissionCooldown_None [of c s "msg_sender c"]
    by (simp add: submitPlayerWealth_def onlyProvider_def whenNotPaused_def requireInitialized_def)
next
  case (Some e)
  then show ?thesis
    using checkSubmissionCooldown_None [of c s "msg_sender c"]
    by (simp add: submitPlayerWealth_def onlyProvider_def whenNotPaused_def requireInitialized_def)
qed

lemma submitPlayerWealth_Returned:
  assumes "submitPlayerWealth eng c s p h = Returned s' evs"
  shows "s' = s\<lparr>encryptedPlayerWealth := (encryptedPlayerWealth s)(p := h),
               lastSubmissionTime := (lastSubmissionTime s)(msg_sender c := block_timestamp c)\<rparr>"
    and "evs = [WealthSubmitted (msg_sender c) p h]"
  using assms
  by (auto simp: submitPlayerWealth_def split: option.splits if_splits)

text \<open>
  Claim C7: \<^verbatim>\<open>submitPlayerWealth\<close> fails exactly when the batch is closed, the caller is
  not a provider, the contract is paused, the cooldown of the caller has not elapsed
  (\<open>now < last + cooldown\<close> over the naturals; where the sum overflows \<^verbatim>\<open>uint256\<close> the
  call panics), or the handle is uninitialised. When it returns, the new storage is the
  old one with the handle of that player replaced and the last submission time of the
  caller set to the current time: nothing of the old handle remains and no other player
  changes.
\<close>

theorem C7_submit_fails_exactly_when_and_overwrites:
  "(reverted_with (call_op eng c s (SubmitPlayerWealth p h)) \<noteq> None \<longleftrightarrow>
      \<not> batchOpen s \<or> \<not> providers s (msg_sender c) \<or> paused s \<or>
      unat (block_timestamp c) < unat (lastSubmissionTime s (msg_sender c)) + unat (cooldownSeconds s) \<or>
      \<not> FHE_isInitialized eng h) \<and>
   (call_op eng c s (SubmitPlayerWealth p h) = Returned s' evs \<longrightarrow>
      s' = s\<lparr>encryptedPlayerWealth := (encryptedPlayerWealth s)(p := h),
              lastSubmissionTime := (lastSubmissionTime s)(msg_sender c := block_timestamp c)\<rparr> \<and>
      encryptedPlayerWealth s' p = h \<and>
      (\<forall>q. q \<noteq> p \<longrightarrow> encryptedPlayerWealth s' q = encryptedPlayerWealth s q) \<and>
      lastSubmissionTime s' (msg_sender c) = block_timestamp c)"
proof -
  have 1: "(reverted_with (call_op eng c s (SubmitPlayerWealth p h)) \<noteq> None) =
      (\<not> batchOpen s \<or> \<not> providers s (msg_sender c) \<or> paused s \<or>
      unat (block_timestamp c) < unat (lastSubmissionTime s (msg_sender c)) + unat (cooldownSeconds s) \<or>
      \<not> FHE_isInitialized eng h)"
    using submitPlayerWealth_accepts_iff [of eng c s p h] by (auto simp: not_le)
  have 2: "call_op eng c s (SubmitPlayerWealth p h) = Returned s' evs \<longrightarrow>
      s' = s\<lparr>encryptedPlayerWealth := (encryptedPlayerWealth s)(p := h),
              lastSubmissionTime := (lastSubmissionTime s)(msg_sender c := block_timestamp c)\<rparr>"
    using submitPlayerWealth_Returned(1) [of eng c s p h s' evs] by simp
  from 1 2 show ?thesis by auto
qed

text \<open>Alice submits at time 100 in \<open>opened\<close>; at time 29 the cooldown of 30 blocks her.\<close>

theorem C7_witness:
  "reverted_with (call_op test_engine (at alice 100 0) opened (SubmitPlayerWealth 0 101)) = None \<and>
   encryptedPlayerWealth
     (commit opened (call_op test_engine (at alice 100 0) opened (SubmitPlayerWealth 0 101))) 0 = 101 \<and>
   lastSubmissionTime
     (commit opened (call_op test_engine (at alice 100 0) opened (SubmitPlayerWealth 0 101))) alice = 100 \<and>
   reverted_with (call_op test_engine (at alice 29 0) opened (SubmitPlayerWealth 0 101)) \<noteq> None"
proof -
  let ?r = "call_op test_engine (at alice 100 0) opened (SubmitPlayerWealth 0 101)"
  let ?r' = "call_op test_engine (at alice 29 0) opened (SubmitPlayerWealth 0 101)"
  have ok: "\<not> (\<not> batchOpen opened \<or> \<not> providers opened (msg_sender (at alice 100 0)) \<or> paused opened \<or>
      unat (block_timestamp (at alice 100 0)) <
        unat (lastSubmissionTime opened (msg_sender (at alice 100 0))) + unat (cooldownSeconds opened) \<or>
      \<not> FHE_isInitialized test_engine 101)"
    by (simp add: opened_facts at_def test_engine_def)
  have early: "unat (block_timestamp (at alice 29 0)) <
        unat (lastSubmissionTime opened (msg_sender (at alice 29 0))) + unat (cooldownSeconds opened)"
    by (simp add: opened_facts at_def)
  from C7_submit_fails_exactly_when_and_overwrites
         [of test_engine "at alice 100 0" opened 0 101 "commit opened ?r" "emitted ?r"] ok
  have 1: "reverted_with ?r = None" by blast
  from C7_submit_fails_exactly_when_and_overwrites
         [of test_engine "at alice 100 0" opened 0 101 "commit opened ?r" "emitted ?r"]
       outcome_of_parts [OF 1, of opened]
  have 2: "encryptedPlayerWealth (commit opened ?r) 0 = 101 \<and>
           lastSubmissionTime (commit opened ?r) (msg_sender (at alice 100 0)) =
             block_timestamp (at alice 100 0)"
    by blast
  from C7_submit_fails_exactly_when_and_overwrites
         [of test_engine "at alice 29 0" opened 0 101 "commit opened ?r" "emitted ?r"] early
  have 3: "reverted_with ?r' \<noteq> None" by blast
  from 1 2 3 show ?thesis by (simp add: at_def)
qed

section \<open>The threshold\<close>

text \<open>
  Claim C8: whenever \<^verbatim>\<open>openBatch\<close> returns, the threshold handle is the homomorphic
  sum of the base threshold and the homomorphic product of the growth rate and the
  encoded batch identifier, with the constants 1000 and 50. For every decryption \<open>dec\<close>
  of the engine that commutes with the encoding, the sum and the product, the plaintext
  behind the threshold is \<open>1000 + 50 * batchId\<close> in 32-bit arithmetic.
\<close>

theorem C8_threshold_is_base_plus_growth_times_batch:
  assumes "call_op eng c s OpenBatch = Returned s' evs"
    and "\<And>v. dec (FHE_asEuint32 eng v) = ucast v"
    and "\<And>a b. dec (FHE_add eng a b) = dec a + dec b"
    and "\<And>a b. dec (FHE_mul eng a b) = dec a * dec b"
  shows "encryptedBaseThreshold s' = FHE_asEuint32 eng 1000 \<and>
         encryptedThresholdGrowthRate s' = FHE_asEuint32 eng 50 \<and>
         encryptedEscapeVelocityThreshold s' =
           FHE_add eng (encryptedBaseThreshold s')
             (FHE_mul eng (encryptedThresholdGrowthRate s')
                (FHE_asEuint32 eng (currentBatchId s'))) \<and>
         (dec (encryptedEscapeVelocityThreshold s') :: 32 word) =
           1000 + 50 * ucast (currentBatchId s')"
proof -
  from assms(1) have o: "openBatch eng c s = Returned s' evs" by simp
  note f = openBatch_Returned(7,8,9) [OF o]
  have "dec (encryptedEscapeVelocityThreshold s') =
          dec (FHE_asEuint32 eng 1000) +
          dec (FHE_asEuint32 eng 50) * dec (FHE_asEuint32 eng (currentBatchId s'))"
    by (simp add: f assms(3,4))
  also have "\<dots> = 1000 + 50 * ucast (currentBatchId s')"
    by (simp add: assms(2))
  finally have sem: "dec (encryptedEscapeVelocityThreshold s') =
      1000 + 50 * ucast (currentBatchId s')" .
  from f sem show ?thesis by blast
qed

lemma ucast_take_bit_32: "(ucast (take_bit 32 (x :: 256 word)) :: 32 word) = ucast x"
  by (rule bit_word_eqI) (auto simp: bit_simps)

lemma take_bit_32_256_add:
  "take_bit 32 (take_bit 256 a + take_bit 256 b) = take_bit 32 (a + b :: int)"
proof -
  have "take_bit 32 (take_bit 256 (take_bit 256 a + take_bit 256 b)) =
        take_bit 32 (take_bit 256 (a + b))"
    by (simp only: take_bit_add)
  then show ?thesis by (simp only: take_bit_take_bit min_def) simp
qed

lemma take_bit_32_256_mult:
  "take_bit 32 (take_bit 256 a * take_bit 256 b) = take_bit 32 (a * b :: int)"
proof -
  have "take_bit 32 (take_bit 256 (take_bit 256 a * take_bit 256 b)) =
        take_bit 32 (take_bit 256 (a * b))"
    by (simp only: take_bit_mult)
  then show ?thesis by (simp only: take_bit_take_bit min_def) simp
qed

lemma ucast_add_256_32: "(ucast ((a :: 256 word) + b) :: 32 word) = ucast a + ucast b"
  by transfer (simp add: take_bit_32_256_add)

lemma ucast_mult_256_32: "(ucast ((a :: 256 word) * b) :: 32 word) = ucast a * ucast b"
  by transfer (simp add: take_bit_32_256_mult)

lemma test_decrypt_asEuint32: "test_decrypt (FHE_asEuint32 test_engine v) = ucast v"
  by (simp add: test_decrypt_def test_engine_def ucast_take_bit_32)

lemma test_decrypt_add:
  "test_decrypt (FHE_add test_engine a b) = test_decrypt a + test_decrypt b"
  unfolding test_decrypt_def test_engine_def
  by (simp only: engine.select_convs add_diff_cancel_right' ucast_take_bit_32 ucast_add_256_32)

lemma test_decrypt_mul:
  "test_decrypt (FHE_mul test_engine a b) = test_decrypt a * test_decrypt b"
  unfolding test_decrypt_def test_engine_def
  by (simp only: engine.select_convs add_diff_cancel_right' ucast_take_bit_32 ucast_mult_256_32)

text \<open>Reopening batch 0 gives batch 1 and a threshold that decrypts to 1050.\<close>

theorem C8_witness:
  "encryptedEscapeVelocityThreshold
     (commit opened (call_op test_engine (at alice 102 0) opened OpenBatch)) =
   FHE_add test_engine (FHE_asEuint32 test_engine 1000)
     (FHE_mul test_engine (FHE_asEuint32 test_engine 50) (FHE_asEuint32 test_engine 1)) \<and>
   test_decrypt (encryptedEscapeVelocityThreshold
     (commit opened (call_op test_engine (at alice 102 0) opened OpenBatch))) = 1050"
proof -
  let ?r = "call_op test_engine (at alice 102 0) opened OpenBatch"
  have a: "?r = Returned (commit opened ?r) (emitted ?r)"
    using outcome_of_parts [OF reopen_accepts] .
  have n: "currentBatchId (commit opened ?r) = 1"
    by (simp add: opened_facts openBatch_def calculateInitialThreshold_def guard_defs
      test_engine_def at_def)
  from C8_threshold_is_base_plus_growth_times_batch
         [of test_engine "at alice 102 0" opened "commit opened ?r" "emitted ?r" test_decrypt,
          OF a test_decrypt_asEuint32 test_decrypt_add test_decrypt_mul] n
  show ?thesis by auto
qed

section \<open>Failing calls\<close>









section \<open>Who may call back\<close>

text \<open>
  Claim C10: the callback has no access control and no pause gate. Its outcome is the
  same for every caller and time, and for any two storages that agree on the context of
  the request, on the wealth handle the callback reads and on the threshold (they may
  differ in owner, providers, pause flag and everything else): the same error or the same
  event, and the same context written; and the context of the request is the only thing
  a callback changes.
\<close>

theorem C10_callback_outcome_independent_of_caller:
  assumes "decryptionContexts s1 rid = decryptionContexts s2 rid"
    and "encryptedPlayerWealth s1 (batchId (decryptionContexts s1 rid)) =
         encryptedPlayerWealth s2 (batchId (decryptionContexts s2 rid))"
    and "encryptedEscapeVelocityThreshold s1 = encryptedEscapeVelocityThreshold s2"
  shows "call_op eng c1 s1 (MyCallback rid ct pf) = call_op eng c2 s1 (MyCallback rid ct pf) \<and>
         reverted_with (call_op eng c1 s1 (MyCallback rid ct pf)) =
           reverted_with (call_op eng c2 s2 (MyCallback rid ct pf)) \<and>
         emitted (call_op eng c1 s1 (MyCallback rid ct pf)) =
           emitted (call_op eng c2 s2 (MyCallback rid ct pf)) \<and>
         decryptionContexts (commit s1 (call_op eng c1 s1 (MyCallback rid ct pf))) rid =
           decryptionContexts (commit s2 (call_op eng c2 s2 (MyCallback rid ct pf))) rid \<and>
         commit s1 (call_op eng c1 s1 (MyCallback rid ct pf)) =
           s1\<lparr>decryptionContexts := (decryptionContexts s1)
                (rid := decryptionContexts
                          (commit s1 (call_op eng c1 s1 (MyCallback rid ct pf))) rid)\<rparr>"
proof -
  have same: "reverted_with (myCallback eng s1 rid ct pf) =
           reverted_with (myCallback eng s2 rid ct pf) \<and>
         emitted (myCallback eng s1 rid ct pf) = emitted (myCallback eng s2 rid ct pf) \<and>
         decryptionContexts (commit s1 (myCallback eng s1 rid ct pf)) rid =
           decryptionContexts (commit s2 (myCallback eng s2 rid ct pf)) rid"
    using assms
    by (simp add: myCallback_def recomputedStateHash_def Let_def split: option.splits)
  have only_ctx: "commit s1 (myCallback eng s1 rid ct pf) =
           s1\<lparr>decryptionContexts := (decryptionContexts s1)
                (rid := decryptionContexts (commit s1 (myCallback eng s1 rid ct pf)) rid)\<rparr>"
    by (simp add: myCallback_def Let_def split: option.splits)
  from same only_ctx show ?thesis by simp
qed

lemma pending0_facts:
  "decryptionContexts pending0 0 =
     \<lparr> batchId = 0, stateHash = 4096036865111599113705, processed = False \<rparr>"
  "encryptedPlayerWealth pending0 0 = 101"
  "encryptedEscapeVelocityThreshold pending0 = 1001"
  by (simp_all add: pending0_def opened_def deployed_def run_defs)

text \<open>
  The callback of request 0 is accepted from Alice on a paused contract owned by Bob
  exactly as from Bob on \<open>pending0\<close>.
\<close>

theorem C10_witness:
  "reverted_with (call_op test_engine (at alice 150 0) (pending0\<lparr>owner := bob, paused := True\<rparr>)
      (MyCallback 0 (cleartexts_of 100 1000 False) [1])) = None \<and>
   emitted (call_op test_engine (at alice 150 0) (pending0\<lparr>owner := bob, paused := True\<rparr>)
      (MyCallback 0 (cleartexts_of 100 1000 False) [1])) =
     [DecryptionCompleted 0 0 100 1000 False]"
proof -
  have e: "emitted (call_op test_engine (at bob 150 0) pending0
      (MyCallback 0 (cleartexts_of 100 1000 False) [1])) = [DecryptionCompleted 0 0 100 1000 False]"
    by (simp add: myCallback_def recomputedStateHash_def hashCiphertexts_def snapshot_def
        pending0_facts decode_cleartexts_of test_engine_def)
  have "decryptionContexts pending0 0 =
          decryptionContexts (pending0\<lparr>owner := bob, paused := True\<rparr>) 0"
    and "encryptedPlayerWealth pending0 (batchId (decryptionContexts pending0 0)) =
         encryptedPlayerWealth (pending0\<lparr>owner := bob, paused := True\<rparr>)
           (batchId (decryptionContexts (pending0\<lparr>owner := bob, paused := True\<rparr>) 0))"
    and "encryptedEscapeVelocityThreshold pending0 =
         encryptedEscapeVelocityThreshold (pending0\<lparr>owner := bob, paused := True\<rparr>)"
    by simp_all
  from C10_callback_outcome_independent_of_caller
         [OF this, of test_engine "at bob 150 0" "cleartexts_of 100 1000 False" "[1]"
            "at alice 150 0"]
       pending0_accepts e
  show ?thesis by simp
qed

end
